theory Spec2Isabelle
  imports Complex_Main
begin

section \<open>Go strings\<close>

text \<open>
  A Go \<open>string\<close> is a byte sequence and is modelled as \<open>string\<close> (a \<open>char list\<close>).
  The functions of Go's \<open>strings\<close> package that the resolver calls are modelled on
  ASCII text: \<open>isSpace\<close> holds for the six ASCII white-space bytes and \<open>ToLower\<close>
  maps \<open>A\<close>..\<open>Z\<close>; every other byte is left alone.
\<close>

definition isSpace :: "char \<Rightarrow> bool" where
  "isSpace c = (c = CHR 0x09 \<or> c = CHR 0x0A \<or> c = CHR 0x0B \<or> c = CHR 0x0C
                 \<or> c = CHR 0x0D \<or> c = CHR 0x20)"

definition isDigit :: "char \<Rightarrow> bool" where
  "isDigit c = (let n = (of_char c :: nat) in 48 \<le> n \<and> n \<le> 57)"

definition toLowerChar :: "char \<Rightarrow> char" where
  "toLowerChar c =
     (let n = (of_char c :: nat) in if 65 \<le> n \<and> n \<le> 90 then char_of (n + 32) else c)"

definition ToLower :: "string \<Rightarrow> string" where
  "ToLower s = map toLowerChar s"

definition TrimSpace :: "string \<Rightarrow> string" where
  "TrimSpace s = rev (dropWhile isSpace (rev (dropWhile isSpace s)))"

text \<open>\<open>strings.Fields\<close>: the maximal runs of non-space bytes, in order.\<close>

fun fieldsFrom :: "string \<Rightarrow> string \<Rightarrow> string list" where
  "fieldsFrom cur [] = (if cur = [] then [] else [cur])"
| "fieldsFrom cur (c # cs) =
     (if isSpace c then (if cur = [] then fieldsFrom [] cs else cur # fieldsFrom [] cs)
      else fieldsFrom (cur @ [c]) cs)"

definition Fields :: "string \<Rightarrow> string list" where
  "Fields s = fieldsFrom [] s"

definition HasPrefix :: "string \<Rightarrow> string \<Rightarrow> bool" where
  "HasPrefix s p = (take (length p) s = p)"

text \<open>\<open>strings.Contains s substr\<close>: \<open>substr\<close> occurs in \<open>s\<close> as a contiguous block.\<close>

fun Contains :: "string \<Rightarrow> string \<Rightarrow> bool" where
  "Contains [] substr = (substr = [])"
| "Contains (c # cs) substr = (HasPrefix (c # cs) substr \<or> Contains cs substr)"

definition TrimPrefix :: "string \<Rightarrow> string \<Rightarrow> string" where
  "TrimPrefix s p = (if HasPrefix s p then drop (length p) s else s)"

text \<open>\<open>strings.Trim s cutset\<close>: leading and trailing bytes that occur in \<open>cutset\<close> removed.\<close>

definition Trim :: "string \<Rightarrow> string \<Rightarrow> string" where
  "Trim s cutset =
     rev (dropWhile (\<lambda>c. c \<in> set cutset) (rev (dropWhile (\<lambda>c. c \<in> set cutset) s)))"

section \<open>The registry client (internal/abr/client.go)\<close>

record SearchResultsRecord =
  ABN_IdentifierValue :: string
  ABN_IdentifierStatus :: string
  MainBusinessPhysicalAddress_StateCode :: string
  BusinessName_OrganisationName :: string
  BusinessName_Score :: string
  MainName_OrganisationName :: string
  MainTradingName_OrganisationName :: string
  MainTradingName_Score :: string

record Result =
  ABN :: string
  State :: string
  LegalName :: string
  Score :: string

text \<open>The zero value \<open>Result{}\<close>.\<close>

definition emptyResult :: Result where
  "emptyResult = \<lparr>ABN = [], State = [], LegalName = [], Score = []\<rparr>"

text \<open>
  The regular expression \<open>^\d{11}$\<close> of \<open>getAllResults\<close>: in Go \<open>\d\<close> is an ASCII digit
  and \<open>$\<close> (no multi-line flag) is the end of the text.
\<close>

fun matchDigits :: "nat \<Rightarrow> string \<Rightarrow> bool" where
  "matchDigits 0 s = (s = [])"
| "matchDigits (Suc n) [] = False"
| "matchDigits (Suc n) (c # cs) = (isDigit c \<and> matchDigits n cs)"

definition abnRegex_MatchString :: "string \<Rightarrow> bool" where
  "abnRegex_MatchString s = matchDigits 11 s"

text \<open>
  The body of the loop over the decoded records: \<open>None\<close> is the \<open>continue\<close>,
  \<open>Some\<close> the record appended to \<open>results\<close>.
\<close>

definition extractRecord :: "SearchResultsRecord \<Rightarrow> Result option" where
  "extractRecord rec =
     (let abn = TrimSpace (ABN_IdentifierValue rec);
          status = TrimSpace (ABN_IdentifierStatus rec)
      in if \<not> abnRegex_MatchString abn \<or> status \<noteq> ''Active'' then None
         else
           let state = TrimSpace (MainBusinessPhysicalAddress_StateCode rec);
               legalName = TrimSpace (BusinessName_OrganisationName rec);
               legalName = (if legalName = [] then TrimSpace (MainName_OrganisationName rec)
                            else legalName);
               legalName = (if legalName = []
                            then TrimSpace (MainTradingName_OrganisationName rec)
                            else legalName);
               score = TrimSpace (BusinessName_Score rec);
               score = (if score = [] then TrimSpace (MainTradingName_Score rec) else score)
           in Some \<lparr>ABN = abn, State = state, LegalName = legalName, Score = score\<rparr>)"

fun extractLoop :: "SearchResultsRecord list \<Rightarrow> Result list \<Rightarrow> Result list" where
  "extractLoop [] results = results"
| "extractLoop (rec # recs) results =
     (case extractRecord rec of
        None \<Rightarrow> extractLoop recs results
      | Some r \<Rightarrow> extractLoop recs (results @ [r]))"

text \<open>
  \<open>xml.Unmarshal\<close> is Go's standard library: the decoder is a parameter, returning the
  \<open>searchResultsRecord\<close> elements of the document or the decoding error. Both versions
  of the client differ only in the path of these elements inside the document. A nil
  slice and an empty slice are both \<open>[]\<close>.
\<close>

definition getAllResults ::
  "(string \<Rightarrow> 'e + SearchResultsRecord list) \<Rightarrow> string \<Rightarrow> Result list" where
  "getAllResults unmarshal xmlText =
     (if xmlText = [] then []
      else case unmarshal xmlText of
             Inl err \<Rightarrow> []
           | Inr records \<Rightarrow> extractLoop records [])"


subsection \<open>Ranking: \<open>findBestResult\<close>\<close>

definition companyKeywords :: "string list" where
  "companyKeywords =
     [''pty'', ''limited'', ''ltd'', ''inc'', ''corporation'', ''corp'', ''group'', ''holding'']"

definition unrelatedKeywords :: "string list" where
  "unrelatedKeywords =
     [''cleaning'', ''freight'', ''toners'', ''candles'', ''music'', ''ads'', ''dogwash'']"

text \<open>
  The two keyword loops: \<open>for _, keyword := range keywords\<close> setting a flag and
  breaking at the first keyword that \<open>nameLower\<close> contains.
\<close>

fun containsKeyword :: "string \<Rightarrow> string list \<Rightarrow> bool" where
  "containsKeyword nameLower [] = False"
| "containsKeyword nameLower (keyword # keywords) =
     (if Contains nameLower keyword then True else containsKeyword nameLower keywords)"

text \<open>
  \<open>stringToSet\<close> builds a \<open>map[string]bool\<close> whose values are all \<open>true\<close>: it is its
  set of keys. \<open>b[key]\<close> is membership, \<open>len\<close> is \<open>card\<close>.
\<close>

definition stringToSet :: "string list \<Rightarrow> string set" where
  "stringToSet strs = set strs"

definition intersection :: "string set \<Rightarrow> string set \<Rightarrow> string set" where
  "intersection a b = Set.filter (\<lambda>key. key \<in> b) a"

record scoredResult =
  score :: real
  result :: Result

text \<open>
  \<open>fmt.Sscanf(result.Score, "%f", &scoreValue)\<close> is Go's standard library: the scanner
  is a parameter \<open>sscanf\<close>, giving the number scanned or \<open>None\<close> when the scan fails
  (then \<open>scoreValue\<close> keeps its initial 50.0). Scores are \<open>real\<close>: the rounding of
  \<open>float64\<close> and its infinities and NaN are not modelled.

  \<open>scoreResult\<close> is the body of the loop over \<open>results\<close>: \<open>None\<close> is a \<open>continue\<close>.
\<close>

definition scoreResult ::
  "(string \<Rightarrow> real option) \<Rightarrow> string \<Rightarrow> string set \<Rightarrow> Result \<Rightarrow> scoredResult option" where
  "scoreResult sscanf searchLower searchWords r =
     (let nameLower = ToLower (LegalName r);
          resultWords = stringToSet (Fields nameLower)
      in if \<not> containsKeyword nameLower companyKeywords then None
         else
           let commonWords = intersection searchWords resultWords
           in if card commonWords = 0 then None
              else if containsKeyword nameLower unrelatedKeywords \<and> card commonWords < 2
              then None
              else
                let scoreValue = (case sscanf (Score r) of Some v \<Rightarrow> v | None \<Rightarrow> 50);
                    exactMatch = (if searchLower = nameLower then 1000 else 0);
                    containsMatch =
                      (if Contains searchLower nameLower \<or> Contains nameLower searchLower
                       then 500 else 0);
                    wordMatch = real (card commonWords) * 100;
                    totalScore = exactMatch + containsMatch + wordMatch + scoreValue
                in Some \<lparr>score = totalScore, result = r\<rparr>)"

fun scoreLoop ::
  "(string \<Rightarrow> real option) \<Rightarrow> string \<Rightarrow> string set \<Rightarrow> Result list \<Rightarrow>
   scoredResult list \<Rightarrow> scoredResult list" where
  "scoreLoop sscanf searchLower searchWords [] scoredResults = scoredResults"
| "scoreLoop sscanf searchLower searchWords (r # rs) scoredResults =
     (case scoreResult sscanf searchLower searchWords r of
        None \<Rightarrow> scoreLoop sscanf searchLower searchWords rs scoredResults
      | Some sr \<Rightarrow> scoreLoop sscanf searchLower searchWords rs (scoredResults @ [sr]))"

text \<open>The list \<open>scoredResults\<close> as it stands after the loop.\<close>

definition scoredResultsOf ::
  "(string \<Rightarrow> real option) \<Rightarrow> string \<Rightarrow> Result list \<Rightarrow> scoredResult list" where
  "scoredResultsOf sscanf businessName results =
     (let searchLower = ToLower (TrimSpace businessName);
          searchWords = stringToSet (Fields searchLower)
      in scoreLoop sscanf searchLower searchWords results [])"

text \<open>The loop over \<open>scoredResults[1:]\<close> that keeps the running maximum.\<close>

fun maxLoop :: "scoredResult list \<Rightarrow> real \<Rightarrow> Result \<Rightarrow> Result" where
  "maxLoop [] maxScore maxResult = maxResult"
| "maxLoop (sr # srs) maxScore maxResult =
     (if score sr > maxScore then maxLoop srs (score sr) (result sr)
      else maxLoop srs maxScore maxResult)"

definition findBestResult ::
  "(string \<Rightarrow> real option) \<Rightarrow> string \<Rightarrow> Result list \<Rightarrow> Result" where
  "findBestResult sscanf businessName results =
     (if length results = 0 then emptyResult
      else case scoredResultsOf sscanf businessName results of
             [] \<Rightarrow> emptyResult
           | sr0 # rest \<Rightarrow> maxLoop rest (score sr0) (result sr0))"

subsection \<open>The two-stage \<open>Lookup\<close>\<close>

text \<open>
  The HTTP round trip of \<open>searchByName\<close> is the environment. \<open>registry sent name\<close> is
  what the registry answers to the query \<open>name\<close> after the queries \<open>sent\<close>: the body, or
  the transport error. The list of queries sent so far is the state that is threaded
  through.
\<close>

type_synonym 'e registry = "string list \<Rightarrow> string \<Rightarrow> 'e + string"

definition searchByName ::
  "'e registry \<Rightarrow> string \<Rightarrow> string list \<Rightarrow> ('e + string) \<times> string list" where
  "searchByName registry businessName sent =
     (registry sent businessName, sent @ [businessName])"

text \<open>The scan of the Stage-2 results for the identifier of \<open>bestResult\<close>, with its \<open>break\<close>.\<close>

fun scanABN :: "Result list \<Rightarrow> Result \<Rightarrow> Result" where
  "scanABN [] bestResult = bestResult"
| "scanABN (r # rs) bestResult = (if ABN r = ABN bestResult then r else scanABN rs bestResult)"

definition returned :: "Result \<Rightarrow> string \<times> string \<times> string \<times> string" where
  "returned r = (ABN r, State r, LegalName r, Score r)"

definition Lookup ::
  "'e registry \<Rightarrow> (string \<Rightarrow> 'e + SearchResultsRecord list) \<Rightarrow> (string \<Rightarrow> real option) \<Rightarrow>
   string \<Rightarrow> string list \<Rightarrow> (string \<times> string \<times> string \<times> string) \<times> string list" where
  "Lookup registry unmarshal sscanf businessName sent =
     (case searchByName registry businessName sent of
        (Inl err, sent1) \<Rightarrow> (([], [], [], []), sent1)
      | (Inr xmlResponse, sent1) \<Rightarrow>
          (let allResults = getAllResults unmarshal xmlResponse;
               bestResult = findBestResult sscanf businessName allResults
           in if ABN bestResult = [] then (([], [], [], []), sent1)
              else if LegalName bestResult \<noteq> [] then
                (case searchByName registry (LegalName bestResult) sent1 of
                   (Inl err, sent2) \<Rightarrow> (returned bestResult, sent2)
                 | (Inr xmlResponse2, sent2) \<Rightarrow>
                     (returned (scanABN (getAllResults unmarshal xmlResponse2) bestResult),
                      sent2))
              else (returned bestResult, sent1)))"

text \<open>
  The second version of the client in the repository has a \<open>Lookup\<close> commented as
  "Simple lookup: just search with the provided name and return the first result".
\<close>

definition Lookup_simple ::
  "'e registry \<Rightarrow> (string \<Rightarrow> 'e + SearchResultsRecord list) \<Rightarrow>
   string \<Rightarrow> string list \<Rightarrow> (string \<times> string \<times> string \<times> string) \<times> string list" where
  "Lookup_simple registry unmarshal businessName sent =
     (case searchByName registry businessName sent of
        (Inl err, sent1) \<Rightarrow> (([], [], [], []), sent1)
      | (Inr xmlResponse, sent1) \<Rightarrow>
          (case getAllResults unmarshal xmlResponse of
             [] \<Rightarrow> (([], [], [], []), sent1)
           | firstResult # rest \<Rightarrow> (returned firstResult, sent1)))"

text \<open>\<open>GetAllResults\<close>, the exported search of the second version (its prints left out).\<close>

definition GetAllResults ::
  "'e registry \<Rightarrow> (string \<Rightarrow> 'e + SearchResultsRecord list) \<Rightarrow>
   string \<Rightarrow> string list \<Rightarrow> Result list \<times> string list" where
  "GetAllResults registry unmarshal businessName sent =
     (case searchByName registry businessName sent of
        (Inl err, sent1) \<Rightarrow> ([], sent1)
      | (Inr xmlResponse, sent1) \<Rightarrow> (getAllResults unmarshal xmlResponse, sent1))"


section \<open>The caching handler (internal/server/server.go)\<close>

record MerchantResult =
  Name :: string
  GoogleLegalName :: string
  GoogleState :: string
  GooglePostcode :: string
  ABNFound :: string
  ABNLegalName :: string
  ABNState :: string
  Verified :: string
  ABNCount :: int
  AllABNResults :: "Result list"

text \<open>The fields of \<open>google.MerchantInfo\<close> that the handler reads.\<close>

record MerchantInfo =
  Info_LegalName :: string
  Info_State :: string
  Info_Postcode :: string

text \<open>The two maps of \<open>Server\<close> that the handler uses.\<close>

record Server =
  results :: "string \<rightharpoonup> MerchantResult"
  cache :: "string \<rightharpoonup> MerchantResult"

text \<open>The queries that have left the process: to the registry and to the web search.\<close>

record io =
  abrSent :: "string list"
  googleSent :: "string list"

text \<open>
  The response written: status 404 with the error body, or the JSON encoding of the ten
  fields of a \<open>MerchantResult\<close>.
\<close>

datatype response = NotFound | Found MerchantResult

text \<open>
  \<open>ExtractMerchantInfo\<close> is one web search followed by pattern matching on its text;
  the handler drops its error. It is the environment: \<open>google sent name\<close> is the
  \<open>MerchantInfo\<close> answered for \<open>name\<close> after the queries \<open>sent\<close>.
\<close>

definition ExtractMerchantInfo ::
  "(string list \<Rightarrow> string \<Rightarrow> MerchantInfo) \<Rightarrow> string \<Rightarrow> string list \<Rightarrow>
   MerchantInfo \<times> string list" where
  "ExtractMerchantInfo google merchantName sent = (google sent merchantName, sent @ [merchantName])"

text \<open>\<open>path\<close> is \<open>r.URL.Path\<close>.\<close>

definition handleMerchantAPI ::
  "'e registry \<Rightarrow> (string \<Rightarrow> 'e + SearchResultsRecord list) \<Rightarrow>
   (string list \<Rightarrow> string \<Rightarrow> MerchantInfo) \<Rightarrow>
   Server \<Rightarrow> io \<Rightarrow> string \<Rightarrow> response \<times> Server \<times> io" where
  "handleMerchantAPI registry unmarshal google s w path =
     (let merchantName = TrimPrefix path ''/api/merchant/'';
          merchantName = Trim merchantName ''/''
      in case results s merchantName of
           None \<Rightarrow> (NotFound, s, w)
         | Some res \<Rightarrow>
             (case cache s merchantName of
                Some cachedResult \<Rightarrow> (Found cachedResult, s, w)
              | None \<Rightarrow>
                  (let (allResults, sent1) =
                         GetAllResults registry unmarshal merchantName (abrSent w);
                       res = res\<lparr>AllABNResults := allResults\<rparr>;
                       res = res\<lparr>ABNCount := int (length allResults)\<rparr>;
                       (googleInfo, gsent1) =
                         ExtractMerchantInfo google merchantName (googleSent w);
                       res = res\<lparr>GoogleLegalName := Info_LegalName googleInfo\<rparr>;
                       res = res\<lparr>GoogleState := Info_State googleInfo\<rparr>;
                       res = res\<lparr>GooglePostcode := Info_Postcode googleInfo\<rparr>
                   in (Found res,
                       s\<lparr>cache := (cache s)(merchantName \<mapsto> res)\<rparr>,
                       w\<lparr>abrSent := sent1, googleSent := gsent1\<rparr>))))"

section \<open>Sample inputs\<close>

definition mkRecord :: "string \<Rightarrow> string \<Rightarrow> string \<Rightarrow> string \<Rightarrow> string \<Rightarrow> SearchResultsRecord" where
  "mkRecord idValue idStatus stateCode mainName tradingScore =
     \<lparr>ABN_IdentifierValue = idValue, ABN_IdentifierStatus = idStatus,
      MainBusinessPhysicalAddress_StateCode = stateCode,
      BusinessName_OrganisationName = [], BusinessName_Score = [],
      MainName_OrganisationName = mainName,
      MainTradingName_OrganisationName = [], MainTradingName_Score = tradingScore\<rparr>"

text \<open>A first answer about "Apple": one usable record, one cancelled, one malformed.\<close>

definition appleRecords :: "SearchResultsRecord list" where
  "appleRecords =
     [mkRecord '' 50169260144 '' ''Active'' ''NSW'' ''Apple Pty Ltd'' ''95'',
      mkRecord ''50169260145'' ''Cancelled'' ''VIC'' ''Apple Group Ltd'' ''90'',
      mkRecord ''5016926014X'' ''Active'' ''QLD'' ''Apple Holdings'' ''90'']"

text \<open>The answer to the query "Apple Pty Ltd": the same identifier with another address.\<close>

definition appleRecords2 :: "SearchResultsRecord list" where
  "appleRecords2 =
     [mkRecord ''11111111111'' ''Active'' ''WA'' ''Apple Pty Ltd Holdings'' ''99'',
      mkRecord ''50169260144'' ''Active'' ''VIC'' ''APPLE PTY LTD'' ''100'']"

definition acmeRecords :: "SearchResultsRecord list" where
  "acmeRecords =
     [mkRecord ''10000000001'' ''Active'' ''NSW'' ''Acme Traders'' ''99'',
      mkRecord ''10000000002'' ''Active'' ''NSW'' ''Acme Holdings Pty Ltd'' ''60'',
      mkRecord ''10000000003'' ''Active'' ''VIC'' ''Bobs Cleaning Pty Ltd'' ''99'',
      mkRecord ''10000000004'' ''Active'' ''QLD'' ''Acme Cleaning Pty Ltd'' ''80'',
      mkRecord ''10000000005'' ''Active'' ''SA'' ''Acme Cleaning Pty Ltd'' ''80'']"

definition sampleUnmarshal :: "string \<Rightarrow> string + SearchResultsRecord list" where
  "sampleUnmarshal xmlText =
     (if xmlText = ''<apple/>'' then Inr appleRecords
      else if xmlText = ''<apple2/>'' then Inr appleRecords2
      else if xmlText = ''<acme/>'' then Inr acmeRecords
      else if xmlText = ''<none/>'' then Inr []
      else Inl ''XML syntax error'')"

definition sampleRegistry :: "string registry" where
  "sampleRegistry sent businessName =
     (if businessName = ''Apple'' then Inr ''<apple/>''
      else if businessName = ''Apple Pty Ltd'' then Inr ''<apple2/>''
      else if businessName = ''Acme Cleaning Services'' then Inr ''<acme/>''
      else if businessName = ''apple'' then Inr ''<none/>''
      else if businessName = ''Garbled'' then Inr ''<<<''
      else Inl ''timeout'')"

text \<open>A registry that answers only its first query.\<close>

definition flakyRegistry :: "string registry" where
  "flakyRegistry sent businessName =
     (if sent = [] then sampleRegistry sent businessName else Inl ''timeout'')"

text \<open>A scanner of unsigned decimal integers.\<close>

definition sampleSscanf :: "string \<Rightarrow> real option" where
  "sampleSscanf str =
     (if str \<noteq> [] \<and> list_all isDigit str
      then Some (real (foldl (\<lambda>a c. 10 * a + (of_char c - 48)) 0 str))
      else None)"

definition sampleGoogle :: "string list \<Rightarrow> string \<Rightarrow> MerchantInfo" where
  "sampleGoogle sent merchantName =
     \<lparr>Info_LegalName = merchantName, Info_State = ''NSW'', Info_Postcode = ''2000''\<rparr>"

definition csvRow :: "string \<Rightarrow> MerchantResult" where
  "csvRow merchant =
     \<lparr>Name = merchant, GoogleLegalName = [], GoogleState = [], GooglePostcode = [],
      ABNFound = ''50169260144'', ABNLegalName = ''Apple Pty Ltd'', ABNState = ''NSW'',
      Verified = ''Yes'', ABNCount = 0, AllABNResults = []\<rparr>"

definition sampleServer :: Server where
  "sampleServer =
     \<lparr>results = [''Apple'' \<mapsto> csvRow ''Apple'', ''apple'' \<mapsto> csvRow ''apple''],
      cache = Map.empty\<rparr>"

definition io0 :: io where
  "io0 = \<lparr>abrSent = [], googleSent = []\<rparr>"


section \<open>Properties of the string functions\<close>




section \<open>Candidate extraction\<close>







section \<open>The ranking gates\<close>

lemma containsKeyword_iff:
  "containsKeyword nameLower ks \<longleftrightarrow> (\<exists>k \<in> set ks. Contains nameLower k)"
  by (induction ks) auto

lemma in_set_map_filter:
  "y \<in> set (List.map_filter f xs) \<longleftrightarrow> (\<exists>x \<in> set xs. f x = Some y)"
  by (induction xs) (auto simp: List.map_filter_simps split: option.splits)

lemma intersection_Int: "intersection (stringToSet xs) (stringToSet ys) = set xs \<inter> set ys"
  by (auto simp: intersection_def stringToSet_def)

lemma scoreLoop_map_filter:
  "scoreLoop sscanf sl sw rs acc = acc @ List.map_filter (scoreResult sscanf sl sw) rs"
  by (induction rs arbitrary: acc) (auto simp: List.map_filter_simps split: option.splits)

lemma scoredResultsOf_map_filter:
  "scoredResultsOf sscanf businessName rs =
     List.map_filter
       (scoreResult sscanf (ToLower (TrimSpace businessName))
          (stringToSet (Fields (ToLower (TrimSpace businessName))))) rs"
  by (simp add: scoredResultsOf_def Let_def scoreLoop_map_filter)

lemma scoreResult_Some_iff:
  "(\<exists>sr. scoreResult sscanf sl (stringToSet ws) r = Some sr) \<longleftrightarrow>
     (\<exists>k \<in> set companyKeywords. Contains (ToLower (LegalName r)) k)
     \<and> set ws \<inter> set (Fields (ToLower (LegalName r))) \<noteq> {}
     \<and> \<not> ((\<exists>k \<in> set unrelatedKeywords. Contains (ToLower (LegalName r)) k)
          \<and> card (set ws \<inter> set (Fields (ToLower (LegalName r)))) < 2)"
  by (auto simp: scoreResult_def Let_def containsKeyword_iff intersection_Int)

lemma scoreResult_result:
  "scoreResult sscanf sl sw r = Some sr \<Longrightarrow> result sr = r"
  by (auto simp: scoreResult_def Let_def split: if_splits)


lemma scoredResultsOf_mem:
  "sr \<in> set (scoredResultsOf sscanf businessName rs) \<longleftrightarrow>
     (\<exists>r \<in> set rs. scoreResult sscanf (ToLower (TrimSpace businessName))
          (stringToSet (Fields (ToLower (TrimSpace businessName)))) r = Some sr)"
  by (simp add: scoredResultsOf_map_filter in_set_map_filter)




section \<open>Scoring and selection\<close>









section \<open>Failures of Stage 1\<close>

lemma findBestResult_Nil: "findBestResult sscanf businessName [] = emptyResult"
  by (simp add: findBestResult_def)

lemma getAllResults_undecodable:
  "xmlText = [] \<or> (\<exists>err. unmarshal xmlText = Inl err) \<or> unmarshal xmlText = Inr []
   \<Longrightarrow> getAllResults unmarshal xmlText = []"
  by (auto simp: getAllResults_def)

lemma Lookup_no_candidates:
  "registry sent businessName = Inr xmlResponse \<Longrightarrow> getAllResults unmarshal xmlResponse = []
   \<Longrightarrow> fst (Lookup registry unmarshal sscanf businessName sent) = ([], [], [], [])"
  by (simp add: Lookup_def searchByName_def findBestResult_Nil emptyResult_def)

lemma Lookup_transport_error:
  "registry sent businessName = Inl err
   \<Longrightarrow> fst (Lookup registry unmarshal sscanf businessName sent) = ([], [], [], [])"
  by (simp add: Lookup_def searchByName_def)

lemma Lookup_simple_no_match:
  "(\<exists>err. registry sent businessName = Inl err)
     \<or> (\<exists>xmlResponse. registry sent businessName = Inr xmlResponse
            \<and> getAllResults unmarshal xmlResponse = [])
   \<Longrightarrow> fst (Lookup_simple registry unmarshal businessName sent) = ([], [], [], [])"
  by (auto simp: Lookup_simple_def searchByName_def)

text \<open>
  Claim C2. When the Stage-1 search fails in transport, or its body does not decode,
  \<open>Lookup\<close> returns the four empty strings of "no match", as does the simple \<open>Lookup\<close>
  of the second version; the value is the one returned when the registry answers with a
  document that holds no record. The type of \<open>Lookup\<close> has no error component.
\<close>

theorem Lookup_failure_is_no_match:
  assumes "(\<exists>err. registry sent businessName = Inl err)
     \<or> (\<exists>xmlResponse. registry sent businessName = Inr xmlResponse
            \<and> (\<exists>err. unmarshal xmlResponse = Inl err))"
  shows "fst (Lookup registry unmarshal sscanf businessName sent) = ([], [], [], [])
     \<and> fst (Lookup_simple registry unmarshal businessName sent) = ([], [], [], [])
     \<and> (\<forall>registry2 xmlResponse2.
           registry2 sent businessName = Inr xmlResponse2 \<and> unmarshal xmlResponse2 = Inr []
           \<longrightarrow> fst (Lookup registry2 unmarshal sscanf businessName sent)
               = fst (Lookup registry unmarshal sscanf businessName sent))"
proof -
  have a: "fst (Lookup registry unmarshal sscanf businessName sent) = ([], [], [], [])"
    using assms
  proof
    assume "\<exists>err. registry sent businessName = Inl err"
    then obtain err where "registry sent businessName = Inl err" by blast
    then show ?thesis by (rule Lookup_transport_error)
  next
    assume "\<exists>xmlResponse. registry sent businessName = Inr xmlResponse
            \<and> (\<exists>err. unmarshal xmlResponse = Inl err)"
    then obtain x where x: "registry sent businessName = Inr x" "\<exists>err. unmarshal x = Inl err"
      by blast
    from x(2) have "getAllResults unmarshal x = []" by (simp add: getAllResults_undecodable)
    with x(1) show ?thesis by (rule Lookup_no_candidates)
  qed
  have b: "fst (Lookup_simple registry unmarshal businessName sent) = ([], [], [], [])"
    using assms getAllResults_undecodable [of _ unmarshal]
    by (intro Lookup_simple_no_match) blast
  have c: "fst (Lookup registry2 unmarshal sscanf businessName sent) = ([], [], [], [])"
    if "registry2 sent businessName = Inr x2" "unmarshal x2 = Inr []" for registry2 x2
    using that(1) getAllResults_undecodable [of x2 unmarshal] that(2)
    by (intro Lookup_no_candidates) auto
  show ?thesis using a b c by simp
qed

theorem Lookup_failure_is_no_match_witness:
  "fst (Lookup sampleRegistry sampleUnmarshal sampleSscanf ''Kmart'' []) = ([], [], [], [])
   \<and> fst (Lookup sampleRegistry sampleUnmarshal sampleSscanf ''Garbled'' []) = ([], [], [], [])
   \<and> fst (Lookup_simple sampleRegistry sampleUnmarshal ''Garbled'' []) = ([], [], [], [])"
proof -
  have h1: "(\<exists>err. sampleRegistry [] ''Kmart'' = Inl err)
     \<or> (\<exists>xmlResponse. sampleRegistry [] ''Kmart'' = Inr xmlResponse
            \<and> (\<exists>err. sampleUnmarshal xmlResponse = Inl err))"
  proof -
    have "sampleRegistry [] ''Kmart'' = Inl ''timeout''" by code_simp
    then show ?thesis by blast
  qed
  have h2: "(\<exists>err. sampleRegistry [] ''Garbled'' = Inl err)
     \<or> (\<exists>xmlResponse. sampleRegistry [] ''Garbled'' = Inr xmlResponse
            \<and> (\<exists>err. sampleUnmarshal xmlResponse = Inl err))"
  proof -
    have "sampleRegistry [] ''Garbled'' = Inr ''<<<''
          \<and> sampleUnmarshal ''<<<'' = Inl ''XML syntax error''" by code_simp
    then show ?thesis by blast
  qed
  show ?thesis
    using Lookup_failure_is_no_match
            [where registry = sampleRegistry and unmarshal = sampleUnmarshal
               and sscanf = sampleSscanf and businessName = "''Kmart''" and sent = "[]", OF h1]
          Lookup_failure_is_no_match
            [where registry = sampleRegistry and unmarshal = sampleUnmarshal
               and sscanf = sampleSscanf and businessName = "''Garbled''" and sent = "[]", OF h2]
    by blast
qed

section \<open>Stage 2\<close>

lemma scanABN_find:
  "scanABN rs bestResult =
     (case List.find (\<lambda>r. ABN r = ABN bestResult) rs of Some r \<Rightarrow> r | None \<Rightarrow> bestResult)"
  by (induction rs) auto

lemma returned_emptyResult: "returned emptyResult = ([], [], [], [])"
  by (simp add: returned_def emptyResult_def)

text \<open>
  Claim C7, as amended. In the two-stage \<open>Lookup\<close>: when Stage 1 selects a candidate
  \<open>best\<close> with a non-empty identifier and legal name, exactly one more query is sent, for
  that legal name; the value returned is the first Stage-2 candidate whose identifier
  equals that of \<open>best\<close> when there is one, and \<open>best\<close> itself when there is none or the
  Stage-2 query fails (an undecodable body gives no candidates). The simple \<open>Lookup\<close>
  of the second version sends the one query and returns the first extracted candidate.
\<close>

theorem Lookup_stage2:
  assumes "registry sent businessName = Inr xmlResponse"
    and "best = findBestResult sscanf businessName (getAllResults unmarshal xmlResponse)"
    and "ABN best \<noteq> []" and "LegalName best \<noteq> []"
  shows "snd (Lookup registry unmarshal sscanf businessName sent)
           = sent @ [businessName, LegalName best]
     \<and> fst (Lookup registry unmarshal sscanf businessName sent)
         = returned
             (case registry (sent @ [businessName]) (LegalName best) of
                Inl err \<Rightarrow> best
              | Inr xmlResponse2 \<Rightarrow>
                  (case List.find (\<lambda>r. ABN r = ABN best) (getAllResults unmarshal xmlResponse2) of
                     Some r \<Rightarrow> r
                   | None \<Rightarrow> best))
     \<and> Lookup_simple registry unmarshal businessName sent
         = (returned (case getAllResults unmarshal xmlResponse of
                        [] \<Rightarrow> emptyResult
                      | firstResult # rest \<Rightarrow> firstResult),
            sent @ [businessName])"
proof -
  have a: "snd (Lookup registry unmarshal sscanf businessName sent)
           = sent @ [businessName, LegalName best]"
    using assms
    by (cases "registry (sent @ [businessName]) (LegalName best)")
       (simp_all add: Lookup_def searchByName_def Let_def)
  have b: "fst (Lookup registry unmarshal sscanf businessName sent)
         = returned
             (case registry (sent @ [businessName]) (LegalName best) of
                Inl err \<Rightarrow> best
              | Inr xmlResponse2 \<Rightarrow>
                  (case List.find (\<lambda>r. ABN r = ABN best) (getAllResults unmarshal xmlResponse2) of
                     Some r \<Rightarrow> r
                   | None \<Rightarrow> best))"
    using assms
    by (cases "registry (sent @ [businessName]) (LegalName best)")
       (simp_all add: Lookup_def searchByName_def Let_def scanABN_find split: option.splits)
  have c: "Lookup_simple registry unmarshal businessName sent
         = (returned (case getAllResults unmarshal xmlResponse of
                        [] \<Rightarrow> emptyResult
                      | firstResult # rest \<Rightarrow> firstResult),
            sent @ [businessName])"
    using assms(1)
    by (simp add: Lookup_simple_def searchByName_def returned_emptyResult split: list.splits)
  show ?thesis using a b c by simp
qed


theorem Lookup_stage2_witness:
  "Lookup sampleRegistry sampleUnmarshal sampleSscanf ''Apple'' []
     = ((''50169260144'', ''VIC'', ''APPLE PTY LTD'', ''100''), [''Apple'', ''Apple Pty Ltd''])
   \<and> Lookup flakyRegistry sampleUnmarshal sampleSscanf ''Apple'' []
     = ((''50169260144'', ''NSW'', ''Apple Pty Ltd'', ''95''), [''Apple'', ''Apple Pty Ltd''])"
proof -
  let ?best = "\<lparr>ABN = ''50169260144'', State = ''NSW'', LegalName = ''Apple Pty Ltd'',
                Score = ''95''\<rparr>"
  have s1: "sampleRegistry [] ''Apple'' = Inr ''<apple/>''" by code_simp
  have f1: "flakyRegistry [] ''Apple'' = Inr ''<apple/>''" by code_simp
  have best: "?best = findBestResult sampleSscanf ''Apple'' (getAllResults sampleUnmarshal ''<apple/>'')"
    by code_simp
  have n1: "ABN ?best \<noteq> []" and n2: "LegalName ?best \<noteq> []" by simp_all
  have e1: "returned
             (case sampleRegistry ([] @ [''Apple'']) (LegalName ?best) of
                Inl err \<Rightarrow> ?best
              | Inr xmlResponse2 \<Rightarrow>
                  (case List.find (\<lambda>r. ABN r = ABN ?best) (getAllResults sampleUnmarshal xmlResponse2) of
                     Some r \<Rightarrow> r
                   | None \<Rightarrow> ?best))
            = (''50169260144'', ''VIC'', ''APPLE PTY LTD'', ''100'')"
    by code_simp
  have e2: "returned
             (case flakyRegistry ([] @ [''Apple'']) (LegalName ?best) of
                Inl err \<Rightarrow> ?best
              | Inr xmlResponse2 \<Rightarrow>
                  (case List.find (\<lambda>r. ABN r = ABN ?best) (getAllResults sampleUnmarshal xmlResponse2) of
                     Some r \<Rightarrow> r
                   | None \<Rightarrow> ?best))
            = (''50169260144'', ''NSW'', ''Apple Pty Ltd'', ''95'')"
    by code_simp
  have l: "[] @ [''Apple'', LegalName ?best] = [''Apple'', ''Apple Pty Ltd'']" by simp
  have a: "Lookup sampleRegistry sampleUnmarshal sampleSscanf ''Apple'' []
     = ((''50169260144'', ''VIC'', ''APPLE PTY LTD'', ''100''), [''Apple'', ''Apple Pty Ltd''])"
    using Lookup_stage2
            [where registry = sampleRegistry and unmarshal = sampleUnmarshal
               and sscanf = sampleSscanf and businessName = "''Apple''" and sent = "[]"
               and xmlResponse = "''<apple/>''" and best = ?best, OF s1 best n1 n2]
    unfolding e1 l by (simp add: prod_eq_iff)
  have b: "Lookup flakyRegistry sampleUnmarshal sampleSscanf ''Apple'' []
     = ((''50169260144'', ''NSW'', ''Apple Pty Ltd'', ''95''), [''Apple'', ''Apple Pty Ltd''])"
    using Lookup_stage2
            [where registry = flakyRegistry and unmarshal = sampleUnmarshal
               and sscanf = sampleSscanf and businessName = "''Apple''" and sent = "[]"
               and xmlResponse = "''<apple/>''" and best = ?best, OF f1 best n1 n2]
    unfolding e2 l by (simp add: prod_eq_iff)
  show ?thesis using a b by simp
qed

text \<open>
  The claim C7 as stated fails on the simple \<open>Lookup\<close>: it returns the candidate of its
  only query although the registry's answer for that candidate's legal name holds a
  candidate with the same identifier and another address.
\<close>

theorem Lookup_simple_skips_stage2:
  "Lookup_simple sampleRegistry sampleUnmarshal ''Apple'' []
     = ((''50169260144'', ''NSW'', ''Apple Pty Ltd'', ''95''), [''Apple''])
   \<and> sampleRegistry [''Apple''] ''Apple Pty Ltd'' = Inr ''<apple2/>''
   \<and> List.find (\<lambda>r. ABN r = ''50169260144'') (getAllResults sampleUnmarshal ''<apple2/>'')
       = Some \<lparr>ABN = ''50169260144'', State = ''VIC'', LegalName = ''APPLE PTY LTD'',
                Score = ''100''\<rparr>
   \<and> snd (Lookup_simple sampleRegistry sampleUnmarshal ''Apple'' [])
       \<noteq> [''Apple'', ''Apple Pty Ltd'']
   \<and> fst (Lookup_simple sampleRegistry sampleUnmarshal ''Apple'' [])
       \<noteq> (''50169260144'', ''VIC'', ''APPLE PTY LTD'', ''100'')"
  by code_simp

section \<open>The selected candidate is a company\<close>

lemma maxLoop_mem: "maxLoop srs m r = r \<or> maxLoop srs m r \<in> result ` set srs"
proof (induction srs arbitrary: m r)
  case Nil
  then show ?case by simp
next
  case (Cons sr srs)
  show ?case
  proof (cases "score sr > m")
    case True
    with Cons.IH [of "score sr" "result sr"] show ?thesis by auto
  next
    case False
    with Cons.IH [of m r] show ?thesis by auto
  qed
qed

lemma findBestResult_cases:
  "findBestResult sscanf businessName rs = emptyResult
   \<or> (\<exists>sr \<in> set (scoredResultsOf sscanf businessName rs).
         findBestResult sscanf businessName rs = result sr)"
proof (cases "scoredResultsOf sscanf businessName rs")
  case Nil
  then show ?thesis by (simp add: findBestResult_def)
next
  case (Cons sr0 rest)
  show ?thesis
  proof (cases "rs = []")
    case True
    then show ?thesis by (simp add: findBestResult_def)
  next
    case False
    then have "findBestResult sscanf businessName rs = maxLoop rest (score sr0) (result sr0)"
      using Cons by (simp add: findBestResult_def)
    with maxLoop_mem [of rest "score sr0" "result sr0"] Cons show ?thesis by auto
  qed
qed

lemma scored_is_company:
  assumes "sr \<in> set (scoredResultsOf sscanf businessName rs)"
  shows "\<exists>k \<in> set companyKeywords. Contains (ToLower (LegalName (result sr))) k"
proof -
  from assms obtain r where r: "scoreResult sscanf (ToLower (TrimSpace businessName))
          (stringToSet (Fields (ToLower (TrimSpace businessName)))) r = Some sr"
    unfolding scoredResultsOf_mem by blast
  then have "result sr = r" by (rule scoreResult_result)
  with r scoreResult_Some_iff [of sscanf _ _ r] show ?thesis by blast
qed

lemma company_name_nonempty:
  "\<exists>k \<in> set companyKeywords. Contains (ToLower n) k \<Longrightarrow> n \<noteq> []"
  by (auto simp: companyKeywords_def ToLower_def)

lemma findBestResult_company:
  assumes "findBestResult sscanf businessName rs \<noteq> emptyResult"
  shows "(\<exists>k \<in> set companyKeywords.
            Contains (ToLower (LegalName (findBestResult sscanf businessName rs))) k)
         \<and> LegalName (findBestResult sscanf businessName rs) \<noteq> []"
proof -
  from assms findBestResult_cases [of sscanf businessName rs]
  obtain sr where sr: "sr \<in> set (scoredResultsOf sscanf businessName rs)"
      "findBestResult sscanf businessName rs = result sr"
    by blast
  from scored_is_company [OF sr(1)] sr(2)
  have c: "\<exists>k \<in> set companyKeywords.
            Contains (ToLower (LegalName (findBestResult sscanf businessName rs))) k"
    by simp
  with company_name_nonempty show ?thesis by blast
qed

text \<open>
  Claim C10. A result of \<open>findBestResult\<close> other than the empty one has a legal name
  that contains a company keyword and so is not empty; hence whenever Stage 1 of
  \<open>Lookup\<close> selects a candidate (non-empty identifier) the guard of Stage 2 holds and
  the second query, for the legal name, is sent.
\<close>

theorem stage2_always_attempted:
  "(findBestResult sscanf businessName rs \<noteq> emptyResult \<longrightarrow>
      (\<exists>k \<in> set companyKeywords.
          Contains (ToLower (LegalName (findBestResult sscanf businessName rs))) k)
      \<and> LegalName (findBestResult sscanf businessName rs) \<noteq> [])
   \<and> (registry sent businessName = Inr xmlResponse
       \<and> ABN (findBestResult sscanf businessName (getAllResults unmarshal xmlResponse)) \<noteq> []
       \<longrightarrow>
         LegalName (findBestResult sscanf businessName (getAllResults unmarshal xmlResponse)) \<noteq> []
         \<and> snd (Lookup registry unmarshal sscanf businessName sent)
             = sent @ [businessName,
                       LegalName (findBestResult sscanf businessName
                                    (getAllResults unmarshal xmlResponse))])"
proof (intro conjI impI)
  assume "findBestResult sscanf businessName rs \<noteq> emptyResult"
  then show "\<exists>k \<in> set companyKeywords.
          Contains (ToLower (LegalName (findBestResult sscanf businessName rs))) k"
    and "LegalName (findBestResult sscanf businessName rs) \<noteq> []"
    using findBestResult_company by blast+
next
  let ?best = "findBestResult sscanf businessName (getAllResults unmarshal xmlResponse)"
  assume A: "registry sent businessName = Inr xmlResponse \<and> ABN ?best \<noteq> []"
  then have "?best \<noteq> emptyResult" by (auto simp: emptyResult_def)
  then show n: "LegalName ?best \<noteq> []" using findBestResult_company by blast
  show "snd (Lookup registry unmarshal sscanf businessName sent)
             = sent @ [businessName, LegalName ?best]"
    using A n
    by (cases "registry (sent @ [businessName]) (LegalName ?best)")
       (simp_all add: Lookup_def searchByName_def Let_def)
qed

theorem stage2_always_attempted_witness:
  "LegalName (findBestResult sampleSscanf ''Apple'' (getAllResults sampleUnmarshal ''<apple/>''))
     \<noteq> []
   \<and> snd (Lookup sampleRegistry sampleUnmarshal sampleSscanf ''Apple'' [])
       = [''Apple'',
          LegalName (findBestResult sampleSscanf ''Apple''
                       (getAllResults sampleUnmarshal ''<apple/>''))]"
proof -
  have h: "sampleRegistry [] ''Apple'' = Inr ''<apple/>''
       \<and> ABN (findBestResult sampleSscanf ''Apple'' (getAllResults sampleUnmarshal ''<apple/>''))
           \<noteq> []"
    by code_simp
  show ?thesis
    using stage2_always_attempted
            [where registry = sampleRegistry and sent = "[]" and businessName = "''Apple''"
               and xmlResponse = "''<apple/>''" and sscanf = sampleSscanf
               and unmarshal = sampleUnmarshal] h
    by simp
qed


section \<open>The cache of the handler\<close>

lemma TrimPrefix_append: "TrimPrefix (p @ s) p = s"
  by (simp add: TrimPrefix_def HasPrefix_def)

lemma Trim_no_cut:
  assumes "s = [] \<or> (hd s \<notin> set cutset \<and> last s \<notin> set cutset)"
  shows "Trim s cutset = s"
proof (cases s rule: rev_cases)
  case Nil
  then show ?thesis by (simp add: Trim_def)
next
  case (snoc ys y)
  with assms have h: "hd s \<notin> set cutset" and l: "y \<notin> set cutset" by auto
  have "s \<noteq> []" using snoc by simp
  then have a: "dropWhile (\<lambda>c. c \<in> set cutset) s = s" using h by (cases s) auto
  have b: "dropWhile (\<lambda>c. c \<in> set cutset) (rev s) = rev s" using snoc l by simp
  show ?thesis by (simp add: Trim_def a b)
qed

text \<open>
  Claim C8, as amended. The key under which the handler reads and writes the cache is
  the request path with the prefix \<open>/api/merchant/\<close> removed and the leading and
  trailing \<open>/\<close> trimmed, with no case folding and no white-space trimming: two requests
  with equal keys are handled alike, a name that neither starts nor ends with \<open>/\<close> is
  its own key, and a request that is answered leaves its answer in the cache under its
  key and changes no other entry.
\<close>

theorem cache_key_is_trimmed_path:
  "(Trim (TrimPrefix p1 ''/api/merchant/'') ''/'' = Trim (TrimPrefix p2 ''/api/merchant/'') ''/''
      \<longrightarrow> handleMerchantAPI registry unmarshal google s w p1
          = handleMerchantAPI registry unmarshal google s w p2)
   \<and> (name = [] \<or> (hd name \<noteq> CHR ''/'' \<and> last name \<noteq> CHR ''/'')
      \<longrightarrow> Trim (TrimPrefix (''/api/merchant/'' @ name) ''/api/merchant/'') ''/'' = name)
   \<and> (handleMerchantAPI registry unmarshal google s w path = (Found m, s', w')
      \<longrightarrow> cache s' (Trim (TrimPrefix path ''/api/merchant/'') ''/'') = Some m
          \<and> (\<forall>k. k \<noteq> Trim (TrimPrefix path ''/api/merchant/'') ''/'' \<longrightarrow> cache s' k = cache s k))"
proof (intro conjI impI)
  assume E: "Trim (TrimPrefix p1 ''/api/merchant/'') ''/'' = Trim (TrimPrefix p2 ''/api/merchant/'') ''/''"
  show "handleMerchantAPI registry unmarshal google s w p1
          = handleMerchantAPI registry unmarshal google s w p2"
    unfolding handleMerchantAPI_def Let_def E by (rule refl)
next
  assume "name = [] \<or> (hd name \<noteq> CHR ''/'' \<and> last name \<noteq> CHR ''/'')"
  then have "Trim name ''/'' = name" by (intro Trim_no_cut) auto
  then show "Trim (TrimPrefix (''/api/merchant/'' @ name) ''/api/merchant/'') ''/'' = name"
    by (simp only: TrimPrefix_append)
next
  assume A: "handleMerchantAPI registry unmarshal google s w path = (Found m, s', w')"
  then show "cache s' (Trim (TrimPrefix path ''/api/merchant/'') ''/'') = Some m"
    by (auto simp: handleMerchantAPI_def Let_def split: option.splits prod.splits)
  from A show "\<forall>k. k \<noteq> Trim (TrimPrefix path ''/api/merchant/'') ''/'' \<longrightarrow> cache s' k = cache s k"
    by (auto simp: handleMerchantAPI_def Let_def split: option.splits prod.splits)
qed

theorem cache_key_is_trimmed_path_witness:
  "handleMerchantAPI sampleRegistry sampleUnmarshal sampleGoogle sampleServer io0
       ''/api/merchant/Apple/''
     = handleMerchantAPI sampleRegistry sampleUnmarshal sampleGoogle sampleServer io0
       ''/api/merchant/Apple''
   \<and> Trim (TrimPrefix (''/api/merchant/'' @ '' Apple'') ''/api/merchant/'') ''/'' = '' Apple''"
proof -
  have h1: "Trim (TrimPrefix ''/api/merchant/Apple/'' ''/api/merchant/'') ''/''
          = Trim (TrimPrefix ''/api/merchant/Apple'' ''/api/merchant/'') ''/''"
    by code_simp
  have h2: "'' Apple'' = [] \<or> (hd '' Apple'' \<noteq> CHR ''/'' \<and> last '' Apple'' \<noteq> CHR ''/'')"
    by simp
  show ?thesis
    using cache_key_is_trimmed_path
            [where ?p1.0 = "''/api/merchant/Apple/''" and ?p2.0 = "''/api/merchant/Apple''"
               and name = "'' Apple''" and registry = sampleRegistry
               and unmarshal = sampleUnmarshal and google = sampleGoogle
               and s = sampleServer and w = io0]
          h1 h2
    by blast
qed

text \<open>
  The claim C8 as stated fails: \<open>Apple\<close> and \<open>apple\<close> differ only in letter case, yet
  after a request for \<open>Apple\<close> the cache has no entry for \<open>apple\<close>, and a request for
  \<open>apple\<close> sends a second registry query and has another answer; with surrounding
  blanks the name is not even found in the table of results.
\<close>

theorem cache_key_is_case_sensitive:
  "ToLower (TrimSpace ''Apple'') = ToLower (TrimSpace '' apple '')
   \<and> (case handleMerchantAPI sampleRegistry sampleUnmarshal sampleGoogle sampleServer io0
             ''/api/merchant/Apple'' of
        (r1, s1, w1) \<Rightarrow>
          cache s1 ''Apple'' \<noteq> None \<and> cache s1 ''apple'' = None \<and> abrSent w1 = [''Apple'']
          \<and> (case handleMerchantAPI sampleRegistry sampleUnmarshal sampleGoogle s1 w1
                    ''/api/merchant/apple'' of
                (r2, s2, w2) \<Rightarrow> abrSent w2 = [''Apple'', ''apple''] \<and> r2 \<noteq> r1)
          \<and> (case handleMerchantAPI sampleRegistry sampleUnmarshal sampleGoogle s1 w1
                    ''/api/merchant/ apple '' of
                (r3, s3, w3) \<Rightarrow> r3 = NotFound))"
  by code_simp

text \<open>
  Claim C9, as amended. For a name that is in the table of loaded results and not yet in
  the cache, the first request sends exactly one registry query (through
  \<open>GetAllResults\<close>: no ranking, no Stage 2) and one web-search extraction, and a second
  request returns the same answer and leaves the server and the queries sent unchanged.
  For a name that is not in the table, the request is answered 404 with nothing sent and
  nothing cached.
\<close>

theorem second_call_is_cached:
  "(results s (Trim (TrimPrefix path ''/api/merchant/'') ''/'') = Some row
      \<and> cache s (Trim (TrimPrefix path ''/api/merchant/'') ''/'') = None
    \<longrightarrow> (\<exists>m s1 w1.
          handleMerchantAPI registry unmarshal google s w path = (Found m, s1, w1)
          \<and> abrSent w1 = abrSent w @ [Trim (TrimPrefix path ''/api/merchant/'') ''/'']
          \<and> googleSent w1 = googleSent w @ [Trim (TrimPrefix path ''/api/merchant/'') ''/'']
          \<and> handleMerchantAPI registry unmarshal google s1 w1 path = (Found m, s1, w1)))
   \<and> (results s (Trim (TrimPrefix path ''/api/merchant/'') ''/'') = None
    \<longrightarrow> handleMerchantAPI registry unmarshal google s w path = (NotFound, s, w))"
proof (intro conjI impI)
  let ?k = "Trim (TrimPrefix path ''/api/merchant/'') ''/''"
  assume A: "results s ?k = Some row \<and> cache s ?k = None"
  obtain m s1 w1 where call: "handleMerchantAPI registry unmarshal google s w path = (m, s1, w1)"
    by (cases "handleMerchantAPI registry unmarshal google s w path") auto
  from call A obtain res where m: "m = Found res"
    and s1: "s1 = s\<lparr>cache := (cache s)(?k \<mapsto> res)\<rparr>"
    and a: "abrSent w1 = abrSent w @ [?k]" and g: "googleSent w1 = googleSent w @ [?k]"
    by (auto simp: handleMerchantAPI_def Let_def GetAllResults_def searchByName_def
          ExtractMerchantInfo_def split: prod.splits sum.splits)
  have again: "handleMerchantAPI registry unmarshal google s1 w1 path = (Found res, s1, w1)"
    using A s1 by (simp add: handleMerchantAPI_def Let_def)
  show "\<exists>m s1 w1.
          handleMerchantAPI registry unmarshal google s w path = (Found m, s1, w1)
          \<and> abrSent w1 = abrSent w @ [?k]
          \<and> googleSent w1 = googleSent w @ [?k]
          \<and> handleMerchantAPI registry unmarshal google s1 w1 path = (Found m, s1, w1)"
    using call m a g again by blast
next
  assume "results s (Trim (TrimPrefix path ''/api/merchant/'') ''/'') = None"
  then show "handleMerchantAPI registry unmarshal google s w path = (NotFound, s, w)"
    by (simp add: handleMerchantAPI_def Let_def)
qed

theorem second_call_is_cached_witness:
  "\<exists>m s1 w1.
      handleMerchantAPI sampleRegistry sampleUnmarshal sampleGoogle sampleServer io0
          ''/api/merchant/Apple'' = (Found m, s1, w1)
      \<and> abrSent w1 = abrSent io0 @ [Trim (TrimPrefix ''/api/merchant/Apple'' ''/api/merchant/'') ''/'']
      \<and> googleSent w1 = googleSent io0 @ [Trim (TrimPrefix ''/api/merchant/Apple'' ''/api/merchant/'') ''/'']
      \<and> handleMerchantAPI sampleRegistry sampleUnmarshal sampleGoogle s1 w1
          ''/api/merchant/Apple'' = (Found m, s1, w1)"
proof -
  have h: "results sampleServer (Trim (TrimPrefix ''/api/merchant/Apple'' ''/api/merchant/'') ''/'')
             = Some (csvRow ''Apple'')
      \<and> cache sampleServer (Trim (TrimPrefix ''/api/merchant/Apple'' ''/api/merchant/'') ''/'') = None"
    by code_simp
  show ?thesis
    using second_call_is_cached
            [where s = sampleServer and path = "''/api/merchant/Apple''"
               and row = "csvRow ''Apple''" and registry = sampleRegistry
               and unmarshal = sampleUnmarshal and google = sampleGoogle and w = io0] h
    by blast
qed

text \<open>
  The claim C9 as stated fails for a name outside the table of results: two requests in
  sequence send no registry query at all, and nothing is stored.
\<close>

theorem unknown_name_issues_no_search:
  "(case handleMerchantAPI sampleRegistry sampleUnmarshal sampleGoogle sampleServer io0
             ''/api/merchant/kmart'' of
        (r1, s1, w1) \<Rightarrow>
          r1 = NotFound \<and> abrSent w1 = []
          \<and> (case handleMerchantAPI sampleRegistry sampleUnmarshal sampleGoogle s1 w1
                    ''/api/merchant/kmart'' of
                (r2, s2, w2) \<Rightarrow>
                  r2 = NotFound \<and> abrSent w2 = [] \<and> googleSent w2 = []
                  \<and> cache s2 ''kmart'' = None))"
  by code_simp

end
